theory Spec2Isabelle
  imports Complex_Main "HOL-Library.AList" "HOL-Library.Char_ord" "HOL-Library.List_Lexorder"
begin

section \<open>JavaScript values\<close>

text \<open>
  The record fields of the data manager hold primitive JavaScript values and \<open>Date\<close>
  objects. A stored number is an integer, taken in the range where a double is exact
  and is printed in decimal; the numbers that the code \<^emph>\<open>computes\<close> (a
  quotient, the numeric value of a string) are extended rationals \<open>xnum\<close>, with
  the two infinities and \<open>NaN\<close> of IEEE arithmetic. Rounding to a double and the
  negative zero are not represented. A property that is absent from an object and a
  property whose value is \<open>undefined\<close> are both the lookup result \<open>None\<close>.
  A \<open>Date\<close> carries its time value in milliseconds since the epoch.
\<close>

datatype jsval = JNull | JBool bool | JNum int | JStr string | JDate int

datatype xnum = Fin rat | PInf | NInf | NaN

type_synonym jsrecord = "(string \<times> jsval) list"

subsection \<open>Printing integers\<close>

definition digit_char :: "nat \<Rightarrow> char" where
  "digit_char d = char_of (48 + d)"

fun show_nat :: "nat \<Rightarrow> string" where
  "show_nat n = (if n < 10 then [digit_char n] else show_nat (n div 10) @ [digit_char (n mod 10)])"

declare show_nat.simps [simp del]

definition show_int :: "int \<Rightarrow> string" where
  "show_int i = (if i < 0 then CHR ''-'' # show_nat (nat (- i)) else show_nat (nat i))"

subsection \<open>Conversion of a string to a number\<close>

text \<open>
  \<open>StringToNumber\<close> of ECMAScript on strings of 8-bit code units: surrounding white
  space is dropped, the empty string is 0, and the rest is \<open>Infinity\<close> with an
  optional sign, a signed decimal literal with optional fraction and exponent, or an
  unsigned literal in base 16, 8 or 2. Anything else is \<open>NaN\<close>.
\<close>

definition is_ws :: "char \<Rightarrow> bool" where
  "is_ws c = ((of_char c :: nat) \<in> {9, 10, 11, 12, 13, 32, 160})"

definition trim :: "string \<Rightarrow> string" where
  "trim s = rev (dropWhile is_ws (rev (dropWhile is_ws s)))"

definition is_digit :: "char \<Rightarrow> bool" where
  "is_digit c = (CHR ''0'' \<le> c \<and> c \<le> CHR ''9'')"

definition is_alpha :: "char \<Rightarrow> bool" where
  "is_alpha c = ((CHR ''A'' \<le> c \<and> c \<le> CHR ''Z'') \<or> (CHR ''a'' \<le> c \<and> c \<le> CHR ''z''))"

definition digit_val :: "char \<Rightarrow> nat option" where
  "digit_val c =
     (if is_digit c then Some (of_char c - 48)
      else if CHR ''a'' \<le> c \<and> c \<le> CHR ''f'' then Some (of_char c - 87)
      else if CHR ''A'' \<le> c \<and> c \<le> CHR ''F'' then Some (of_char c - 55)
      else None)"

fun digits_in :: "nat \<Rightarrow> string \<Rightarrow> nat \<Rightarrow> nat option" where
  "digits_in base [] acc = Some acc"
| "digits_in base (c # cs) acc =
     (case digit_val c of
        None \<Rightarrow> None
      | Some d \<Rightarrow> if d < base then digits_in base cs (base * acc + d) else None)"

definition number_in :: "nat \<Rightarrow> string \<Rightarrow> nat option" where
  "number_in base ds = (if ds = [] then None else digits_in base ds 0)"

definition exponent_part :: "string \<Rightarrow> int option" where
  "exponent_part s =
     (case s of
        [] \<Rightarrow> Some 0
      | c # r \<Rightarrow>
          if c = CHR ''e'' \<or> c = CHR ''E'' then
            (case r of
               [] \<Rightarrow> None
             | d # ds \<Rightarrow>
                 if d = CHR ''-'' then map_option (\<lambda>n. - int n) (number_in 10 ds)
                 else if d = CHR ''+'' then map_option int (number_in 10 ds)
                 else map_option int (number_in 10 r))
          else None)"

definition scale10 :: "nat \<Rightarrow> int \<Rightarrow> rat" where
  "scale10 m e = (if 0 \<le> e then of_nat m * 10 ^ nat e else of_nat m / 10 ^ nat (- e))"

definition unsigned_decimal :: "string \<Rightarrow> xnum" where
  "unsigned_decimal s =
     (if s = ''Infinity'' then PInf
      else
        let ip = takeWhile is_digit s;
            r1 = dropWhile is_digit s;
            dot = (r1 \<noteq> [] \<and> hd r1 = CHR ''.'');
            fp = (if dot then takeWhile is_digit (tl r1) else []);
            r2 = (if dot then dropWhile is_digit (tl r1) else r1)
        in if ip = [] \<and> fp = [] then NaN
           else
             (case (digits_in 10 (ip @ fp) 0, exponent_part r2) of
                (Some m, Some e) \<Rightarrow> Fin (scale10 m (e - int (length fp)))
              | _ \<Rightarrow> NaN))"

definition xneg :: "xnum \<Rightarrow> xnum" where
  "xneg x = (case x of Fin q \<Rightarrow> Fin (- q) | PInf \<Rightarrow> NInf | NInf \<Rightarrow> PInf | NaN \<Rightarrow> NaN)"

definition non_decimal :: "string \<Rightarrow> xnum option" where
  "non_decimal s =
     (case s of
        z # x # ds \<Rightarrow>
          if z \<noteq> CHR ''0'' then None
          else
            let base = (if x = CHR ''x'' \<or> x = CHR ''X'' then 16
                        else if x = CHR ''o'' \<or> x = CHR ''O'' then 8
                        else if x = CHR ''b'' \<or> x = CHR ''B'' then 2 else (0::nat))
            in if base = 0 then None
               else Some (case number_in base ds of None \<Rightarrow> NaN | Some n \<Rightarrow> Fin (of_nat n))
      | _ \<Rightarrow> None)"

definition str_to_num :: "string \<Rightarrow> xnum" where
  "str_to_num s0 =
     (let s = trim s0
      in if s = [] then Fin 0
         else
           (case non_decimal s of
              Some x \<Rightarrow> x
            | None \<Rightarrow>
                if hd s = CHR ''-'' then xneg (unsigned_decimal (tl s))
                else if hd s = CHR ''+'' then unsigned_decimal (tl s)
                else unsigned_decimal s))"

subsection \<open>Operators\<close>

text \<open>\<open>ToNumber\<close>; the argument \<open>None\<close> is \<open>undefined\<close>.\<close>

fun to_number :: "jsval option \<Rightarrow> xnum" where
  "to_number None = NaN"
| "to_number (Some JNull) = Fin 0"
| "to_number (Some (JBool b)) = Fin (if b then 1 else 0)"
| "to_number (Some (JNum n)) = Fin (of_int n)"
| "to_number (Some (JStr s)) = str_to_num s"
| "to_number (Some (JDate t)) = Fin (of_int t)"

fun xlt :: "xnum \<Rightarrow> xnum \<Rightarrow> bool" where
  "xlt NaN y = False"
| "xlt x NaN = False"
| "xlt (Fin a) (Fin b) = (a < b)"
| "xlt (Fin a) PInf = True"
| "xlt NInf (Fin b) = True"
| "xlt NInf PInf = True"
| "xlt x y = False"

text \<open>
  The relational operators \<open><\<close> and \<open>>\<close>: two strings are compared by code units,
  anything else numerically, and a comparison with \<open>NaN\<close> is false.
\<close>

fun js_lt :: "jsval option \<Rightarrow> jsval option \<Rightarrow> bool" where
  "js_lt (Some (JStr a)) (Some (JStr b)) = (a < b)"
| "js_lt a b = xlt (to_number a) (to_number b)"

definition js_gt :: "jsval option \<Rightarrow> jsval option \<Rightarrow> bool" where
  "js_gt a b = js_lt b a"

fun xsub :: "xnum \<Rightarrow> xnum \<Rightarrow> xnum" where
  "xsub NaN y = NaN"
| "xsub x NaN = NaN"
| "xsub (Fin a) (Fin b) = Fin (a - b)"
| "xsub (Fin a) PInf = NInf"
| "xsub (Fin a) NInf = PInf"
| "xsub PInf PInf = NaN"
| "xsub NInf NInf = NaN"
| "xsub PInf y = PInf"
| "xsub NInf y = NInf"

text \<open>Division of doubles: a division by zero is an infinity, or \<open>NaN\<close> for \<open>0 / 0\<close>.\<close>

fun xdiv :: "xnum \<Rightarrow> xnum \<Rightarrow> xnum" where
  "xdiv NaN y = NaN"
| "xdiv x NaN = NaN"
| "xdiv (Fin a) (Fin b) =
     (if b \<noteq> 0 then Fin (a / b) else if 0 < a then PInf else if a < 0 then NInf else NaN)"
| "xdiv (Fin a) y = Fin 0"
| "xdiv PInf (Fin b) = (if 0 \<le> b then PInf else NInf)"
| "xdiv NInf (Fin b) = (if 0 \<le> b then NInf else PInf)"
| "xdiv x y = NaN"

text \<open>\<open>ToBoolean\<close> and the strict equality \<open>===\<close> (two \<open>Date\<close> objects are
  taken to be distinct objects).\<close>

fun truthy :: "jsval option \<Rightarrow> bool" where
  "truthy None = False"
| "truthy (Some JNull) = False"
| "truthy (Some (JBool b)) = b"
| "truthy (Some (JNum n)) = (n \<noteq> 0)"
| "truthy (Some (JStr s)) = (s \<noteq> [])"
| "truthy (Some (JDate t)) = True"

fun strict_eq :: "jsval option \<Rightarrow> jsval option \<Rightarrow> bool" where
  "strict_eq (Some (JDate a)) (Some (JDate b)) = False"
| "strict_eq a b = (a = b)"

fun typeof :: "jsval \<Rightarrow> string" where
  "typeof JNull = ''object''"
| "typeof (JBool b) = ''boolean''"
| "typeof (JNum n) = ''number''"
| "typeof (JStr s) = ''string''"
| "typeof (JDate t) = ''object''"

fun instanceof_Date :: "jsval \<Rightarrow> bool" where
  "instanceof_Date (JDate t) = True"
| "instanceof_Date v = False"

text \<open>The \<open>length\<close> property: only a string has one.\<close>

fun js_length :: "jsval \<Rightarrow> nat option" where
  "js_length (JStr s) = Some (length s)"
| "js_length v = None"

section \<open>The data manager: stores and schemas\<close>

datatype ftype = TString | TNumber | TDate

text \<open>
  The three regular expressions of the schemas: \<open>/^DSR\d{3}$/\<close>,
  \<open>/^DE\d{3}$/\<close> and \<open>/^\d{1,2}-[A-Za-z]{3}$/\<close>.
\<close>

datatype regex = Re_DSR | Re_DE | Re_DayMonth

fun regex_match :: "regex \<Rightarrow> string \<Rightarrow> bool" where
  "regex_match Re_DSR s =
     (take 3 s = ''DSR'' \<and> length (drop 3 s) = 3 \<and> list_all is_digit (drop 3 s))"
| "regex_match Re_DE s =
     (take 2 s = ''DE'' \<and> length (drop 2 s) = 3 \<and> list_all is_digit (drop 2 s))"
| "regex_match Re_DayMonth s =
     (let ds = takeWhile is_digit s; r = dropWhile is_digit s
      in (length ds = 1 \<or> length ds = 2) \<and> r \<noteq> [] \<and> hd r = CHR ''-'' \<and>
         length (tl r) = 3 \<and> list_all is_alpha (tl r))"

text \<open>
  \<open>pattern.test(v)\<close> matches the string form of \<open>v\<close>. The string form of a
  \<open>Date\<close> starts with the name of a week day, which none of the three expressions
  accepts.
\<close>

fun regex_test :: "regex \<Rightarrow> jsval \<Rightarrow> bool" where
  "regex_test re (JStr s) = regex_match re s"
| "regex_test re (JNum n) = regex_match re (show_int n)"
| "regex_test re (JBool b) = regex_match re (if b then ''true'' else ''false'')"
| "regex_test re JNull = regex_match re ''null''"
| "regex_test re (JDate t) = False"

record field_rule =
  type_f :: ftype
  required :: bool
  minLength :: "nat option"
  maxLength :: "nat option"
  min_f :: "int option"
  max_f :: "int option"
  pattern :: "regex option"
  enum_f :: "string list option"

record store =
  schema :: "(string \<times> field_rule) list"
  data :: "jsrecord list"
  indexes :: "string list"
  relationships :: "string list"

definition rule_of :: "ftype \<Rightarrow> field_rule" where
  "rule_of t = \<lparr>type_f = t, required = True, minLength = None, maxLength = None,
                min_f = None, max_f = None, pattern = None, enum_f = None\<rparr>"

definition name_rule :: field_rule where
  "name_rule = (rule_of TString)\<lparr>minLength := Some 2, maxLength := Some 50\<rparr>"

definition amount_rule :: field_rule where
  "amount_rule = (rule_of TNumber)\<lparr>min_f := Some 0, max_f := Some 999999\<rparr>"

definition sales_store :: store where
  "sales_store =
     \<lparr>schema =
        [(''id'', rule_of TString),
         (''name'', name_rule),
         (''monthlyTarget'', amount_rule),
         (''mtdTarget'', amount_rule),
         (''mtdActual'', amount_rule),
         (''createdAt'', rule_of TDate),
         (''updatedAt'', rule_of TDate)],
      data = [],
      indexes = [''id'', ''name''],
      relationships = []\<rparr>"

definition dsr_store :: store where
  "dsr_store =
     \<lparr>schema =
        [(''id'', rule_of TString),
         (''name'', name_rule),
         (''dsrId'', (rule_of TString)\<lparr>pattern := Some Re_DSR\<rparr>),
         (''cluster'', (rule_of TString)\<lparr>enum_f := Some [''North'', ''South'', ''East'', ''West'']\<rparr>),
         (''captainName'', name_rule),
         (''lastMonthActual'', amount_rule),
         (''thisMonthActual'', amount_rule),
         (''slab'', (rule_of TString)\<lparr>enum_f := Some [''Gold'', ''Silver'', ''Bronze'']\<rparr>),
         (''createdAt'', rule_of TDate),
         (''updatedAt'', rule_of TDate)],
      data = [],
      indexes = [''id'', ''dsrId'', ''cluster'', ''captainName''],
      relationships = [''captainName -> sales.name'']\<rparr>"

definition de_store :: store where
  "de_store =
     \<lparr>schema =
        [(''id'', rule_of TString),
         (''name'', name_rule),
         (''deId'', (rule_of TString)\<lparr>pattern := Some Re_DE\<rparr>),
         (''region'', (rule_of TString)\<lparr>enum_f := Some [''North'', ''South'', ''East'', ''West'']\<rparr>),
         (''captainName'', name_rule),
         (''lastMonthActual'', amount_rule),
         (''thisMonthActual'', amount_rule),
         (''slab'', (rule_of TString)\<lparr>enum_f := Some [''Gold'', ''Silver'', ''Bronze'']\<rparr>),
         (''createdAt'', rule_of TDate),
         (''updatedAt'', rule_of TDate)],
      data = [],
      indexes = [''id'', ''deId'', ''region'', ''captainName''],
      relationships = [''captainName -> sales.name'']\<rparr>"

definition salesLog_store :: store where
  "salesLog_store =
     \<lparr>schema =
        [(''id'', rule_of TString),
         (''date'', (rule_of TString)\<lparr>pattern := Some Re_DayMonth\<rparr>),
         (''captainA'', amount_rule),
         (''captainB'', amount_rule),
         (''captainC'', amount_rule),
         (''captainD'', amount_rule),
         (''total'', amount_rule),
         (''createdAt'', rule_of TDate),
         (''updatedAt'', rule_of TDate)],
      data = [],
      indexes = [''id'', ''date''],
      relationships = []\<rparr>"

text \<open>\<open>setupDataStores\<close>: the map of stores, in the order of registration.\<close>

definition setupDataStores :: "(string \<times> store) list" where
  "setupDataStores =
     [(''sales'', sales_store), (''dsr'', dsr_store), (''de'', de_store),
      (''salesLog'', salesLog_store)]"

subsection \<open>Business rules\<close>

datatype rule_result = RuleValid | RuleInvalid string

type_synonym business_rule = "jsval \<Rightarrow> jsrecord \<Rightarrow> rule_result"

definition sales_monthlyTarget :: business_rule where
  "sales_monthlyTarget v rec =
     (if js_lt (Some v) (map_of rec ''mtdTarget'')
      then RuleInvalid ''Monthly target must be greater than or equal to MTD target''
      else RuleValid)"

definition sales_mtdActual :: business_rule where
  "sales_mtdActual v rec =
     (if js_gt (Some v) (map_of rec ''monthlyTarget'')
      then RuleInvalid ''MTD actual cannot exceed monthly target''
      else RuleValid)"

definition growthRate :: "jsval \<Rightarrow> jsrecord \<Rightarrow> xnum" where
  "growthRate v rec =
     xdiv (xsub (to_number (Some v)) (to_number (map_of rec ''lastMonthActual'')))
          (to_number (map_of rec ''lastMonthActual''))"

definition dsr_thisMonthActual :: business_rule where
  "dsr_thisMonthActual v rec =
     (if xlt (Fin (1 / 2)) (growthRate v rec)
      then RuleInvalid ''Growth rate cannot exceed 50%''
      else RuleValid)"

text \<open>\<open>setupValidationRules\<close>: the rules of a store, by field, in declaration order.\<close>

definition validationRules :: "string \<Rightarrow> (string \<times> business_rule) list option" where
  "validationRules storeName =
     (if storeName = ''sales''
      then Some [(''monthlyTarget'', sales_monthlyTarget), (''mtdActual'', sales_mtdActual)]
      else if storeName = ''dsr'' then Some [(''thisMonthActual'', dsr_thisMonthActual)]
      else None)"

subsection \<open>Validation\<close>

record validation =
  valid :: bool
  errors :: "string list"

definition push :: "'a list \<Rightarrow> 'a \<Rightarrow> 'a list" where
  "push xs x = xs @ [x]"

fun join :: "string \<Rightarrow> string list \<Rightarrow> string" where
  "join sep [] = []"
| "join sep [x] = x"
| "join sep (x # y # ys) = x @ sep @ join sep (y # ys)"

definition is_missing :: "jsval option \<Rightarrow> bool" where
  "is_missing v = (v = None \<or> v = Some JNull \<or> v = Some (JStr []))"

text \<open>The six checks of one schema field, after the presence test; each pushes onto
  the error list it is given.\<close>

definition check_type :: "string \<Rightarrow> field_rule \<Rightarrow> jsval \<Rightarrow> string list \<Rightarrow> string list" where
  "check_type field rules v errs =
     (if type_f rules = TString \<and> typeof v \<noteq> ''string''
        then push errs (field @ '' must be a string'')
      else if type_f rules = TNumber \<and> typeof v \<noteq> ''number''
        then push errs (field @ '' must be a number'')
      else if type_f rules = TDate \<and> \<not> instanceof_Date v
        then push errs (field @ '' must be a date'')
      else errs)"

definition check_minLength :: "string \<Rightarrow> field_rule \<Rightarrow> jsval \<Rightarrow> string list \<Rightarrow> string list" where
  "check_minLength field rules v errs =
     (case minLength rules of
        None \<Rightarrow> errs
      | Some m \<Rightarrow>
          if m \<noteq> 0 \<and> (case js_length v of None \<Rightarrow> False | Some l \<Rightarrow> l < m)
          then push errs (field @ '' must be at least '' @ show_nat m @ '' characters'')
          else errs)"

definition check_maxLength :: "string \<Rightarrow> field_rule \<Rightarrow> jsval \<Rightarrow> string list \<Rightarrow> string list" where
  "check_maxLength field rules v errs =
     (case maxLength rules of
        None \<Rightarrow> errs
      | Some m \<Rightarrow>
          if m \<noteq> 0 \<and> (case js_length v of None \<Rightarrow> False | Some l \<Rightarrow> m < l)
          then push errs (field @ '' must be at most '' @ show_nat m @ '' characters'')
          else errs)"

definition check_min :: "string \<Rightarrow> field_rule \<Rightarrow> jsval \<Rightarrow> string list \<Rightarrow> string list" where
  "check_min field rules v errs =
     (case min_f rules of
        None \<Rightarrow> errs
      | Some m \<Rightarrow>
          if js_lt (Some v) (Some (JNum m))
          then push errs (field @ '' must be at least '' @ show_int m)
          else errs)"

definition check_max :: "string \<Rightarrow> field_rule \<Rightarrow> jsval \<Rightarrow> string list \<Rightarrow> string list" where
  "check_max field rules v errs =
     (case max_f rules of
        None \<Rightarrow> errs
      | Some m \<Rightarrow>
          if js_gt (Some v) (Some (JNum m))
          then push errs (field @ '' must be at most '' @ show_int m)
          else errs)"

definition check_pattern :: "string \<Rightarrow> field_rule \<Rightarrow> jsval \<Rightarrow> string list \<Rightarrow> string list" where
  "check_pattern field rules v errs =
     (case pattern rules of
        None \<Rightarrow> errs
      | Some re \<Rightarrow>
          if \<not> regex_test re v then push errs (field @ '' format is invalid'') else errs)"

text \<open>\<open>includes\<close> compares without conversion: only a string is a member.\<close>

definition check_enum :: "string \<Rightarrow> field_rule \<Rightarrow> jsval \<Rightarrow> string list \<Rightarrow> string list" where
  "check_enum field rules v errs =
     (case enum_f rules of
        None \<Rightarrow> errs
      | Some vs \<Rightarrow>
          if \<not> (case v of JStr s \<Rightarrow> s \<in> set vs | _ \<Rightarrow> False)
          then push errs (field @ '' must be one of: '' @ join '', '' vs)
          else errs)"

text \<open>The body of the loop over the schema: \<open>continue\<close> after a missing required
  field, otherwise the checks one after the other on the same error list.\<close>

definition check_field :: "jsrecord \<Rightarrow> string \<times> field_rule \<Rightarrow> string list \<Rightarrow> string list" where
  "check_field rec fr errs =
     (let field = fst fr; rules = snd fr
      in if required rules \<and> is_missing (map_of rec field)
         then push errs (field @ '' is required'')
         else
           (case map_of rec field of
              None \<Rightarrow> errs
            | Some v \<Rightarrow>
                if v = JNull then errs
                else
                  check_enum field rules v
                    (check_pattern field rules v
                      (check_max field rules v
                        (check_min field rules v
                          (check_maxLength field rules v
                            (check_minLength field rules v
                              (check_type field rules v errs))))))))"

fun check_fields :: "jsrecord \<Rightarrow> (string \<times> field_rule) list \<Rightarrow> string list \<Rightarrow> string list" where
  "check_fields rec [] errs = errs"
| "check_fields rec (fr # rest) errs = check_fields rec rest (check_field rec fr errs)"

text \<open>The loop over the business rules of the store.\<close>

definition check_rule :: "jsrecord \<Rightarrow> string \<times> business_rule \<Rightarrow> string list \<Rightarrow> string list" where
  "check_rule rec fr errs =
     (case map_of rec (fst fr) of
        None \<Rightarrow> errs
      | Some v \<Rightarrow>
          (case snd fr v rec of RuleValid \<Rightarrow> errs | RuleInvalid message \<Rightarrow> push errs message))"

fun check_rules :: "jsrecord \<Rightarrow> (string \<times> business_rule) list \<Rightarrow> string list \<Rightarrow> string list" where
  "check_rules rec [] errs = errs"
| "check_rules rec (fr # rest) errs = check_rules rec rest (check_rule rec fr errs)"

definition validateData :: "(string \<times> store) list \<Rightarrow> string \<Rightarrow> jsrecord \<Rightarrow> validation" where
  "validateData stores storeName rec =
     (case map_of stores storeName of
        None \<Rightarrow> \<lparr>valid = False, errors = [''Store not found'']\<rparr>
      | Some st \<Rightarrow>
          let errs = check_fields rec (schema st) [];
              errs' = (case validationRules storeName of
                         None \<Rightarrow> errs
                       | Some businessRules \<Rightarrow> check_rules rec businessRules errs)
          in \<lparr>valid = (errs' = []), errors = errs'\<rparr>)"

section \<open>JSON text\<close>

text \<open>
  \<open>JSON.stringify\<close> on the values that the cache is given: a primitive value, a
  \<open>Date\<close> (written as its ISO string), an array or an object with its properties
  in insertion order. The integers are printed in decimal, which is what JavaScript
  does below \<open>10^21\<close>.
\<close>

datatype json = Prim jsval | Arr "json list" | Obj "(string \<times> json) list"

definition hex_digit :: "nat \<Rightarrow> char" where
  "hex_digit d = (if d < 10 then char_of (48 + d) else char_of (87 + d))"

definition quote_char :: "char \<Rightarrow> string" where
  "quote_char c =
     (let n = (of_char c :: nat)
      in if n = 0x22 then [CHR 0x5C, CHR 0x22]
         else if n = 0x5C then [CHR 0x5C, CHR 0x5C]
         else if n = 8 then [CHR 0x5C, CHR ''b'']
         else if n = 12 then [CHR 0x5C, CHR ''f'']
         else if n = 10 then [CHR 0x5C, CHR ''n'']
         else if n = 13 then [CHR 0x5C, CHR ''r'']
         else if n = 9 then [CHR 0x5C, CHR ''t'']
         else if n < 32
           then [CHR 0x5C, CHR ''u'', CHR ''0'', CHR ''0'', hex_digit (n div 16), hex_digit (n mod 16)]
         else [c])"

definition json_quote :: "string \<Rightarrow> string" where
  "json_quote s = CHR 0x22 # concat (map quote_char s) @ [CHR 0x22]"

definition pad :: "nat \<Rightarrow> int \<Rightarrow> string" where
  "pad w n = replicate (w - length (show_nat (nat n))) CHR ''0'' @ show_nat (nat n)"

text \<open>The civil date of a day number (days since 1970-01-01), proleptic Gregorian.\<close>

definition civil_from_days :: "int \<Rightarrow> int \<times> int \<times> int" where
  "civil_from_days z0 =
     (let z = z0 + 719468;
          era = z div 146097;
          doe = z mod 146097;
          yoe = (doe - doe div 1460 + doe div 36524 - doe div 146096) div 365;
          doy = doe - (365 * yoe + yoe div 4 - yoe div 100);
          mp = (5 * doy + 2) div 153;
          d = doy - (153 * mp + 2) div 5 + 1;
          m = (if mp < 10 then mp + 3 else mp - 9);
          y = yoe + era * 400 + (if m \<le> 2 then 1 else 0)
      in (y, m, d))"

definition toISOString :: "int \<Rightarrow> string" where
  "toISOString t =
     (let ymd = civil_from_days (t div 86400000);
          y = fst ymd;
          ms = t mod 86400000;
          year = (if 0 \<le> y \<and> y \<le> 9999 then pad 4 y
                  else (if y < 0 then ''-'' else ''+'') @ pad 6 \<bar>y\<bar>)
      in year @ ''-'' @ pad 2 (fst (snd ymd)) @ ''-'' @ pad 2 (snd (snd ymd)) @ ''T'' @
         pad 2 (ms div 3600000) @ '':'' @ pad 2 (ms div 60000 mod 60) @ '':'' @
         pad 2 (ms div 1000 mod 60) @ ''.'' @ pad 3 (ms mod 1000) @ ''Z'')"

fun stringify_prim :: "jsval \<Rightarrow> string" where
  "stringify_prim JNull = ''null''"
| "stringify_prim (JBool b) = (if b then ''true'' else ''false'')"
| "stringify_prim (JNum n) = show_int n"
| "stringify_prim (JStr s) = json_quote s"
| "stringify_prim (JDate t) = json_quote (toISOString t)"

fun stringify :: "json \<Rightarrow> string" where
  "stringify (Prim v) = stringify_prim v"
| "stringify (Arr xs) = ''['' @ join '','' (map stringify xs) @ '']''"
| "stringify (Obj kvs) =
     ''{'' @ join '','' (map (\<lambda>kv. json_quote (fst kv) @ '':'' @ stringify (snd kv)) kvs) @ ''}''"

section \<open>The cache manager\<close>

text \<open>
  A call of the cache manager happens at one clock reading \<open>now\<close>: the reads of
  \<open>Date.now()\<close> within one call return the same millisecond. The state is the
  memory map, in insertion order, and the entries that the manager keeps in the session
  storage and in the local storage under the prefix \<open>cache_\<close>, by cache key and in
  key order. A stored item is the entry that \<open>JSON.parse\<close> reads back from it;
  the storage quota is not represented. A read returns the serialised value, to which
  the source applies \<open>deserialize\<close>.
\<close>

record entry =
  value_e :: string
  timestamp :: int
  ttl :: int
  priority :: string
  accessCount :: nat
  lastAccess :: int

record cache_manager =
  memoryCache :: "(string \<times> entry) list"
  sessionStorage :: "(string \<times> entry) list"
  localStorage :: "(string \<times> entry) list"

datatype strategy = Memory | LocalStorage | SessionStorage | Auto | Other

record tier_config =
  maxSize :: nat
  ttl_c :: int

definition cacheConfig :: "strategy \<Rightarrow> tier_config option" where
  "cacheConfig st =
     (case st of
        Memory \<Rightarrow> Some \<lparr>maxSize = 100, ttl_c = 5 * 60 * 1000\<rparr>
      | LocalStorage \<Rightarrow> Some \<lparr>maxSize = 50, ttl_c = 60 * 60 * 1000\<rparr>
      | SessionStorage \<Rightarrow> Some \<lparr>maxSize = 25, ttl_c = 30 * 60 * 1000\<rparr>
      | _ \<Rightarrow> None)"

definition config_maxSize :: "strategy \<Rightarrow> nat" where
  "config_maxSize st = (case cacheConfig st of Some c \<Rightarrow> maxSize c | None \<Rightarrow> 0)"

definition new_cache :: cache_manager where
  "new_cache = \<lparr>memoryCache = [], sessionStorage = [], localStorage = []\<rparr>"

definition getDefaultTTL :: "strategy \<Rightarrow> int" where
  "getDefaultTTL st =
     (case cacheConfig st of
        Some c \<Rightarrow> if ttl_c c \<noteq> 0 then ttl_c c else 5 * 60 * 1000
      | None \<Rightarrow> 5 * 60 * 1000)"

definition serialize :: "json \<Rightarrow> string" where
  "serialize v = stringify v"

definition isValid :: "int \<Rightarrow> entry \<Rightarrow> bool" where
  "isValid now e = (now - timestamp e < ttl e)"

subsection \<open>Eviction\<close>

text \<open>The scan of \<open>evictMemoryCache\<close>: \<open>oldestKey\<close> starts as \<open>null\<close> and
  \<open>oldestTime\<close> as the clock reading.\<close>

fun oldest_scan :: "(string \<times> entry) list \<Rightarrow> string option \<Rightarrow> int \<Rightarrow> string option" where
  "oldest_scan [] oldestKey oldestTime = oldestKey"
| "oldest_scan (ke # rest) oldestKey oldestTime =
     (if lastAccess (snd ke) < oldestTime
      then oldest_scan rest (Some (fst ke)) (lastAccess (snd ke))
      else oldest_scan rest oldestKey oldestTime)"

definition evictMemoryCache :: "int \<Rightarrow> cache_manager \<Rightarrow> cache_manager" where
  "evictMemoryCache now s =
     (case oldest_scan (memoryCache s) None now of
        None \<Rightarrow> s
      | Some oldestKey \<Rightarrow>
          if oldestKey \<noteq> [] then s\<lparr>memoryCache := AList.delete oldestKey (memoryCache s)\<rparr>
          else s)"

text \<open>The storage tiers sort their entries by \<open>lastAccess\<close> and remove the first
  quarter, rounded up.\<close>

definition evict_quarter :: "(string \<times> entry) list \<Rightarrow> (string \<times> entry) list" where
  "evict_quarter items =
     (let entries = sort_key (\<lambda>ke. lastAccess (snd ke)) items;
          toRemove = (length entries + 3) div 4
      in fold (\<lambda>ke st. AList.delete (fst ke) st) (take toRemove entries) items)"

definition evictLocalStorageCache :: "cache_manager \<Rightarrow> cache_manager" where
  "evictLocalStorageCache s = s\<lparr>localStorage := evict_quarter (localStorage s)\<rparr>"

definition evictSessionStorageCache :: "cache_manager \<Rightarrow> cache_manager" where
  "evictSessionStorageCache s = s\<lparr>sessionStorage := evict_quarter (sessionStorage s)\<rparr>"

subsection \<open>Writing\<close>

definition setMemoryCache :: "int \<Rightarrow> string \<Rightarrow> entry \<Rightarrow> cache_manager \<Rightarrow> cache_manager" where
  "setMemoryCache now key e s =
     (let s' = (if config_maxSize Memory \<le> length (memoryCache s) then evictMemoryCache now s
                else s)
      in s'\<lparr>memoryCache := AList.update key e (memoryCache s')\<rparr>)"

definition setLocalStorageCache :: "string \<Rightarrow> entry \<Rightarrow> cache_manager \<Rightarrow> cache_manager" where
  "setLocalStorageCache key e s =
     (let s' = (if config_maxSize LocalStorage \<le> length (localStorage s)
                then evictLocalStorageCache s else s)
      in s'\<lparr>localStorage := AList.update key e (localStorage s')\<rparr>)"

definition setSessionStorageCache :: "string \<Rightarrow> entry \<Rightarrow> cache_manager \<Rightarrow> cache_manager" where
  "setSessionStorageCache key e s =
     (let s' = (if config_maxSize SessionStorage \<le> length (sessionStorage s)
                then evictSessionStorageCache s else s)
      in s'\<lparr>sessionStorage := AList.update key e (sessionStorage s')\<rparr>)"

text \<open>\<open>dataSize\<close> is the length of the JSON text of \<open>entry.value\<close>, which is
  itself the string that \<open>serialize\<close> produced.\<close>

definition dataSize :: "entry \<Rightarrow> nat" where
  "dataSize e = length (json_quote (value_e e))"

definition setAutoCache :: "int \<Rightarrow> string \<Rightarrow> entry \<Rightarrow> cache_manager \<Rightarrow> cache_manager" where
  "setAutoCache now key e s =
     (if dataSize e < 1024 then setMemoryCache now key e s
      else if dataSize e < 10240 then setSessionStorageCache key e s
      else setLocalStorageCache key e s)"

record set_options =
  strategy :: strategy
  ttl_o :: "int option"
  priority_o :: string


definition cache_set :: "int \<Rightarrow> string \<Rightarrow> json \<Rightarrow> set_options \<Rightarrow> cache_manager \<Rightarrow> cache_manager" where
  "cache_set now key v options s =
     (let cacheEntry =
            \<lparr>value_e = serialize v,
             timestamp = now,
             ttl = (case ttl_o options of
                      None \<Rightarrow> getDefaultTTL (strategy options)
                    | Some t \<Rightarrow> if t \<noteq> 0 then t else getDefaultTTL (strategy options)),
             priority = priority_o options,
             accessCount = 0,
             lastAccess = now\<rparr>
      in case strategy options of
           Memory \<Rightarrow> setMemoryCache now key cacheEntry s
         | LocalStorage \<Rightarrow> setLocalStorageCache key cacheEntry s
         | SessionStorage \<Rightarrow> setSessionStorageCache key cacheEntry s
         | Auto \<Rightarrow> setAutoCache now key cacheEntry s
         | Other \<Rightarrow> s)"

subsection \<open>Reading\<close>

definition getMemoryCache :: "cache_manager \<Rightarrow> string \<Rightarrow> entry option" where
  "getMemoryCache s key = map_of (memoryCache s) key"

definition getLocalStorageCache :: "cache_manager \<Rightarrow> string \<Rightarrow> entry option" where
  "getLocalStorageCache s key = map_of (localStorage s) key"

definition getSessionStorageCache :: "cache_manager \<Rightarrow> string \<Rightarrow> entry option" where
  "getSessionStorageCache s key = map_of (sessionStorage s) key"

text \<open>
  What \<open>cacheEntry\<close> refers to: the entry object held by the memory map, or a fresh
  object parsed from a storage item.
\<close>

datatype entry_ref = InMap entry | Parsed entry

fun entry_of :: "entry_ref \<Rightarrow> entry" where
  "entry_of (InMap e) = e"
| "entry_of (Parsed e) = e"

definition find_entry :: "cache_manager \<Rightarrow> string \<Rightarrow> strategy \<Rightarrow> entry_ref option" where
  "find_entry s key st =
     (case st of
        Auto \<Rightarrow>
          (case getMemoryCache s key of
             Some e \<Rightarrow> Some (InMap e)
           | None \<Rightarrow>
               (case getSessionStorageCache s key of
                  Some e \<Rightarrow> Some (Parsed e)
                | None \<Rightarrow> map_option Parsed (getLocalStorageCache s key)))
      | Memory \<Rightarrow> map_option InMap (getMemoryCache s key)
      | LocalStorage \<Rightarrow> map_option Parsed (getLocalStorageCache s key)
      | SessionStorage \<Rightarrow> map_option Parsed (getSessionStorageCache s key)
      | Other \<Rightarrow> None)"

text \<open>
  On a hit the two assignments change the object \<open>cacheEntry\<close> refers to: the
  memory map sees them, a storage item does not, since nothing is written back.
\<close>

definition touch :: "int \<Rightarrow> entry \<Rightarrow> entry" where
  "touch now e = e\<lparr>accessCount := accessCount e + 1, lastAccess := now\<rparr>"

definition cache_get :: "int \<Rightarrow> string \<Rightarrow> strategy \<Rightarrow> cache_manager \<Rightarrow> string option \<times> cache_manager" where
  "cache_get now key st s =
     (case find_entry s key st of
        None \<Rightarrow> (None, s)
      | Some r \<Rightarrow>
          if isValid now (entry_of r) then
            (case r of
               InMap e \<Rightarrow>
                 (Some (value_e e), s\<lparr>memoryCache := AList.update key (touch now e) (memoryCache s)\<rparr>)
             | Parsed e \<Rightarrow> (Some (value_e e), s))
          else (None, s))"

subsection \<open>Cleanup\<close>

text \<open>The sweep that the constructor schedules every 60 seconds: it removes from
  every tier the entries that are no longer valid.\<close>

definition cleanup :: "int \<Rightarrow> cache_manager \<Rightarrow> cache_manager" where
  "cleanup now s =
     s\<lparr>memoryCache := filter (\<lambda>ke. isValid now (snd ke)) (memoryCache s),
       localStorage := filter (\<lambda>ke. isValid now (snd ke)) (localStorage s),
       sessionStorage := filter (\<lambda>ke. isValid now (snd ke)) (sessionStorage s)\<rparr>"

section \<open>The data manager: operations\<close>

text \<open>
  The state of the page: the stores of the data manager, \<open>window.cacheManager\<close>
  when there is one, and the items that the data manager keeps in the local storage
  under the keys \<open>data-<storeName>\<close>, by store name. A saved item is the list of
  records that \<open>JSON.parse\<close> reads back from it. An operation takes the clock
  reading \<open>now\<close> of its \<open>new Date()\<close>, and \<open>addData\<close> the identifier
  \<open>gen\<close> that \<open>generateId()\<close> returns if it is called. A record lists its
  properties in insertion order; JavaScript moves a key that is written like an array
  index (\<open>"0"\<close>, \<open>"12"\<close>) in front of the others, which is not represented.
\<close>

record page =
  dataStores :: "(string \<times> store) list"
  cacheManager :: "cache_manager option"
  savedData :: "(string \<times> jsrecord list) list"

datatype error =
    StoreNotFound string
  | ValidationFailed "string list"
  | DuplicateId "jsval option"
  | RecordNotFound "jsval option"

definition new_page :: page where
  "new_page = \<lparr>dataStores = setupDataStores, cacheManager = Some new_cache, savedData = []\<rparr>"

definition records_json :: "jsrecord list \<Rightarrow> json" where
  "records_json rs = Arr (map (\<lambda>r. Obj (map (\<lambda>kv. (fst kv, Prim (snd kv))) r)) rs)"

text \<open>The refresh of the cache entry of a store, after a mutation.\<close>

definition cache_store :: "int \<Rightarrow> string \<Rightarrow> page \<Rightarrow> page" where
  "cache_store now storeName w =
     (case (cacheManager w, map_of (dataStores w) storeName) of
        (Some cm, Some st) \<Rightarrow>
          w\<lparr>cacheManager :=
              Some (cache_set now (storeName @ ''-data'') (records_json (data st))
                      \<lparr>strategy = Memory, ttl_o = Some (5 * 60 * 1000), priority_o = ''normal''\<rparr> cm)\<rparr>
      | _ \<Rightarrow> w)"

definition put_store :: "string \<Rightarrow> store \<Rightarrow> page \<Rightarrow> page" where
  "put_store storeName st w = w\<lparr>dataStores := AList.update storeName st (dataStores w)\<rparr>"

fun find_index :: "('a \<Rightarrow> bool) \<Rightarrow> 'a list \<Rightarrow> nat option" where
  "find_index P [] = None"
| "find_index P (x # xs) = (if P x then Some 0 else map_option Suc (find_index P xs))"

definition has_id :: "jsval option \<Rightarrow> jsrecord \<Rightarrow> bool" where
  "has_id i item = strict_eq (map_of item ''id'') i"

definition addData :: "int \<Rightarrow> string \<Rightarrow> string \<Rightarrow> jsrecord \<Rightarrow> page \<Rightarrow> (error + jsrecord) \<times> page" where
  "addData now gen storeName rec w =
     (case map_of (dataStores w) storeName of
        None \<Rightarrow> (Inl (StoreNotFound storeName), w)
      | Some st \<Rightarrow>
          let enrichedData =
                AList.update ''updatedAt'' (JDate now)
                  (AList.update ''createdAt'' (JDate now)
                    (AList.update ''id''
                       (if truthy (map_of rec ''id'') then the (map_of rec ''id'') else JStr gen)
                       rec));
              validation = validateData (dataStores w) storeName enrichedData
          in if \<not> valid validation then (Inl (ValidationFailed (errors validation)), w)
             else if find (has_id (map_of enrichedData ''id'')) (data st) \<noteq> None
               then (Inl (DuplicateId (map_of enrichedData ''id'')), w)
             else
               (Inr enrichedData,
                cache_store now storeName
                  (put_store storeName (st\<lparr>data := data st @ [enrichedData]\<rparr>) w)))"

definition updateData :: "int \<Rightarrow> string \<Rightarrow> jsval option \<Rightarrow> jsrecord \<Rightarrow> page \<Rightarrow> (error + jsrecord) \<times> page" where
  "updateData now storeName i updates w =
     (case map_of (dataStores w) storeName of
        None \<Rightarrow> (Inl (StoreNotFound storeName), w)
      | Some st \<Rightarrow>
          (case find_index (has_id i) (data st) of
             None \<Rightarrow> (Inl (RecordNotFound i), w)
           | Some index \<Rightarrow>
               let updatedData =
                     AList.update ''updatedAt'' (JDate now)
                       (fold (\<lambda>kv r. AList.update (fst kv) (snd kv) r) updates (data st ! index));
                   validation = validateData (dataStores w) storeName updatedData
               in if \<not> valid validation then (Inl (ValidationFailed (errors validation)), w)
                  else
                    (Inr updatedData,
                     cache_store now storeName
                       (put_store storeName (st\<lparr>data := (data st)[index := updatedData]\<rparr>) w))))"

definition deleteData :: "int \<Rightarrow> string \<Rightarrow> jsval option \<Rightarrow> page \<Rightarrow> (error + jsrecord) \<times> page" where
  "deleteData now storeName i w =
     (case map_of (dataStores w) storeName of
        None \<Rightarrow> (Inl (StoreNotFound storeName), w)
      | Some st \<Rightarrow>
          (case find_index (has_id i) (data st) of
             None \<Rightarrow> (Inl (RecordNotFound i), w)
           | Some index \<Rightarrow>
               (Inr (data st ! index),
                cache_store now storeName
                  (put_store storeName
                     (st\<lparr>data := take index (data st) @ drop (Suc index) (data st)\<rparr>) w))))"

subsection \<open>Queries\<close>

record query_options =
  filter_o :: "(jsrecord \<Rightarrow> bool) option"
  sort_o :: "(string \<times> string) list option"
  limit :: "int option"
  offset :: "int option"

definition no_options :: query_options where
  "no_options = \<lparr>filter_o = None, sort_o = None, limit = None, offset = None\<rparr>"

text \<open>The comparison function of the sort, over the pairs of field and direction.\<close>

fun compare_by :: "(string \<times> string) list \<Rightarrow> jsrecord \<Rightarrow> jsrecord \<Rightarrow> int" where
  "compare_by [] a b = 0"
| "compare_by (fd # rest) a b =
     (let aVal = map_of a (fst fd);
          bVal = map_of b (fst fd);
          comparison = (if js_lt aVal bVal then - 1 else if js_gt aVal bVal then 1 else (0::int))
      in if comparison \<noteq> 0 then (if snd fd = ''desc'' then - comparison else comparison)
         else compare_by rest a b)"

text \<open>
  \<open>Array.prototype.sort\<close> is stable; it is modelled by insertion sort. The two
  agree when the comparison function is a consistent ordering of the records. When it
  is not (a field that holds strings in some records and numbers in others), the
  order that the engine returns is implementation-defined and can differ from the one
  computed here.
\<close>

fun insert_by :: "('a \<Rightarrow> 'a \<Rightarrow> int) \<Rightarrow> 'a \<Rightarrow> 'a list \<Rightarrow> 'a list" where
  "insert_by cmp x [] = [x]"
| "insert_by cmp x (y # ys) = (if cmp x y \<le> 0 then x # y # ys else y # insert_by cmp x ys)"

definition sort_by :: "('a \<Rightarrow> 'a \<Rightarrow> int) \<Rightarrow> 'a list \<Rightarrow> 'a list" where
  "sort_by cmp xs = foldr (insert_by cmp) xs []"

text \<open>\<open>Array.prototype.slice\<close> on integer bounds: a negative bound counts from the
  end.\<close>

definition js_slice :: "'a list \<Rightarrow> int \<Rightarrow> int \<Rightarrow> 'a list" where
  "js_slice xs start fin =
     (let len = int (length xs);
          k = (if start < 0 then max (len + start) 0 else min start len);
          final = (if fin < 0 then max (len + fin) 0 else min fin len)
      in take (nat (final - k)) (drop (nat k) xs))"

definition nonzero :: "int option \<Rightarrow> bool" where
  "nonzero n = (case n of None \<Rightarrow> False | Some k \<Rightarrow> k \<noteq> 0)"

definition paginate :: "query_options \<Rightarrow> jsrecord list \<Rightarrow> jsrecord list" where
  "paginate options results =
     (if nonzero (limit options) \<or> nonzero (offset options) then
        let off = (if nonzero (offset options) then the (offset options) else 0);
            lim = (if nonzero (limit options) then the (limit options) else int (length results))
        in js_slice results off (off + lim)
      else results)"

definition queryData :: "string \<Rightarrow> query_options \<Rightarrow> page \<Rightarrow> error + jsrecord list" where
  "queryData storeName options w =
     (case map_of (dataStores w) storeName of
        None \<Rightarrow> Inl (StoreNotFound storeName)
      | Some st \<Rightarrow>
          let results = data st;
              filtered = (case filter_o options of None \<Rightarrow> results | Some p \<Rightarrow> filter p results);
              sorted = (case sort_o options of
                          None \<Rightarrow> filtered
                        | Some keys \<Rightarrow> sort_by (compare_by keys) filtered)
          in Inr (paginate options sorted))"

subsection \<open>Saving and loading\<close>

text \<open>What \<open>JSON.parse\<close> reads back from the JSON text of a record: a \<open>Date\<close>
  was written as its ISO string and comes back as that string.\<close>

fun reparsed :: "jsval \<Rightarrow> jsval" where
  "reparsed (JDate t) = JStr (toISOString t)"
| "reparsed v = v"

definition reparsed_records :: "jsrecord list \<Rightarrow> jsrecord list" where
  "reparsed_records rs = map (map (\<lambda>kv. (fst kv, reparsed (snd kv)))) rs"

definition saveAllData :: "page \<Rightarrow> page" where
  "saveAllData w =
     w\<lparr>savedData :=
         fold (\<lambda>ns saved. AList.update (fst ns) (reparsed_records (data (snd ns))) saved)
           (dataStores w) (savedData w)\<rparr>"

definition loadAllData :: "page \<Rightarrow> page" where
  "loadAllData w =
     w\<lparr>dataStores :=
         map (\<lambda>ns. case map_of (savedData w) (fst ns) of
                      None \<Rightarrow> ns
                    | Some saved \<Rightarrow> (fst ns, (snd ns)\<lparr>data := saved\<rparr>))
           (dataStores w)\<rparr>"

text \<open>Emptying the record list of every store, as a restart of the page does.\<close>

definition clear_records :: "page \<Rightarrow> page" where
  "clear_records w = w\<lparr>dataStores := map (\<lambda>ns. (fst ns, (snd ns)\<lparr>data := []\<rparr>)) (dataStores w)\<rparr>"

section \<open>Descriptions used in the statements\<close>

text \<open>
  The errors of one field, stage by stage: a missing required field gives the one
  error of the presence test; a present value is put through the type check, the two
  length checks, the two range checks, the pattern check and the membership check, each
  on its own, and their errors are listed in that order.
\<close>

definition stage_errors :: "string \<Rightarrow> field_rule \<Rightarrow> jsval \<Rightarrow> string list" where
  "stage_errors field rules v =
     check_type field rules v [] @
     check_minLength field rules v [] @ check_maxLength field rules v [] @
     check_min field rules v [] @ check_max field rules v [] @
     check_pattern field rules v [] @
     check_enum field rules v []"

definition field_errors :: "jsrecord \<Rightarrow> string \<times> field_rule \<Rightarrow> string list" where
  "field_errors rec fr =
     (if required (snd fr) \<and> is_missing (map_of rec (fst fr)) then [fst fr @ '' is required'']
      else
        (case map_of rec (fst fr) of
           None \<Rightarrow> []
         | Some v \<Rightarrow> if v = JNull then [] else stage_errors (fst fr) (snd fr) v))"

text \<open>The errors of the business rules of a store, each rule on the whole record.\<close>

definition rule_errors :: "string \<Rightarrow> jsrecord \<Rightarrow> string list" where
  "rule_errors storeName rec =
     (case validationRules storeName of
        None \<Rightarrow> []
      | Some businessRules \<Rightarrow> concat (map (\<lambda>fr. check_rule rec fr []) businessRules))"

text \<open>What a read of an entry returns: its value while it is valid.\<close>

definition read_entry :: "int \<Rightarrow> entry \<Rightarrow> string option" where
  "read_entry now e = (if isValid now e then Some (value_e e) else None)"

section \<open>Sample inputs\<close>

text \<open>A record of the store \<open>dsr\<close> with the two monthly figures given.\<close>

definition dsr_record :: "int \<Rightarrow> int \<Rightarrow> jsrecord" where
  "dsr_record l t =
     [(''id'', JStr ''r1''), (''name'', JStr ''John''), (''dsrId'', JStr ''DSR001''),
      (''cluster'', JStr ''North''), (''captainName'', JStr ''Al''),
      (''lastMonthActual'', JNum l), (''thisMonthActual'', JNum t), (''slab'', JStr ''Gold''),
      (''createdAt'', JDate 0), (''updatedAt'', JDate 0)]"

text \<open>The loop of the repository's eviction test, \<open>cacheManager.set(`key-${i}`,
  { data: i }, { strategy: 'memory' })\<close> for \<open>i\<close> below \<open>n\<close>, with every call
  in the millisecond \<open>now\<close>.\<close>

definition memory_options :: set_options where
  "memory_options = \<lparr>strategy = Memory, ttl_o = None, priority_o = ''normal''\<rparr>"

definition test_key :: "nat \<Rightarrow> string" where
  "test_key i = ''key-'' @ show_nat i"

definition test_value :: "nat \<Rightarrow> json" where
  "test_value i = Obj [(''data'', Prim (JNum (int i)))]"

definition fill_memory :: "int \<Rightarrow> nat \<Rightarrow> cache_manager" where
  "fill_memory now n =
     fold (\<lambda>i. cache_set now (test_key i) (test_value i) memory_options) [0..<n] new_cache"

text \<open>Records of the store \<open>sales\<close>, and the page after one and after two of them
  were added.\<close>

definition sale_record :: "string \<Rightarrow> string \<Rightarrow> jsrecord" where
  "sale_record i n =
     [(''id'', JStr i), (''name'', JStr n), (''monthlyTarget'', JNum 100),
      (''mtdTarget'', JNum 50), (''mtdActual'', JNum 40)]"

definition nameless_record :: jsrecord where
  "nameless_record = [(''monthlyTarget'', JNum 100), (''mtdTarget'', JNum 50), (''mtdActual'', JNum 40)]"

definition stamped :: "int \<Rightarrow> jsrecord \<Rightarrow> jsrecord" where
  "stamped now r = r @ [(''createdAt'', JDate now), (''updatedAt'', JDate now)]"

definition page_one :: page where
  "page_one = snd (addData 1000 ''g1'' ''sales'' (sale_record ''s1'' ''Alpha'') new_page)"

definition page_two :: page where
  "page_two = snd (addData 2000 ''g2'' ''sales'' (sale_record ''s2'' ''Beta'') page_one)"

text \<open>Two records that fail validation: a \<open>dsr\<close> record whose \<open>cluster\<close> is
  a number, and a \<open>sales\<close> record with a short name and a negative target.\<close>

definition odd_cluster_record :: jsrecord where
  "odd_cluster_record = AList.update ''cluster'' (JNum 5) (dsr_record 100 110)"

definition short_name_record :: jsrecord where
  "short_name_record =
     stamped 0 [(''id'', JStr ''s1''), (''name'', JStr ''A''), (''monthlyTarget'', JNum (- 5)),
                (''mtdTarget'', JNum 50), (''mtdActual'', JNum 40)]"

text \<open>The page after a save, a restart with empty stores and a load, and the record
  that the store \<open>sales\<close> then holds.\<close>

definition reloaded_page :: page where
  "reloaded_page = loadAllData (clear_records (saveAllData page_one))"

definition reloaded_sale :: jsrecord where
  "reloaded_sale =
     sale_record ''s1'' ''Alpha'' @
       [(''createdAt'', JStr ''1970-01-01T00:00:01.000Z''),
        (''updatedAt'', JStr ''1970-01-01T00:00:01.000Z'')]"

text \<open>Caches that hold one value under the key \<open>k\<close>, written at time 0: in one
  tier only, or in the memory tier with a time to live of one millisecond and in the
  local storage with the default of one hour.\<close>

definition tier_options :: "strategy \<Rightarrow> int option \<Rightarrow> set_options" where
  "tier_options st t = \<lparr>strategy = st, ttl_o = t, priority_o = ''normal''\<rparr>"

definition small_value :: json where
  "small_value = Prim (JStr ''v'')"

definition memory_only_cache :: cache_manager where
  "memory_only_cache = cache_set 0 ''k'' small_value (tier_options Memory None) new_cache"

definition session_only_cache :: cache_manager where
  "session_only_cache = cache_set 0 ''k'' small_value (tier_options SessionStorage None) new_cache"

definition durable_only_cache :: cache_manager where
  "durable_only_cache = cache_set 0 ''k'' small_value (tier_options LocalStorage None) new_cache"

definition stale_memory_cache :: cache_manager where
  "stale_memory_cache =
     cache_set 0 ''k'' small_value (tier_options LocalStorage None)
       (cache_set 0 ''k'' small_value (tier_options Memory (Some 1)) new_cache)"



section \<open>Validation: the growth rule\<close>

text \<open>
  Claim C1. A \<open>dsr\<close> record whose \<open>lastMonthActual\<close> is 0 should have the growth
  rate 0 and pass the ceiling of 50%. In the code the growth rate of the record with
  \<open>lastMonthActual = 0\<close> and \<open>thisMonthActual = 50\<close> is the quotient \<open>50 / 0\<close>,
  which is \<open>Infinity\<close>, and validation rejects the record with the growth error,
  the same error that rejects the record with 100 and 160.
\<close>

theorem C1_zero_baseline_rejected:
  "growthRate (JNum 50) (dsr_record 0 50) = PInf \<and>
   validateData setupDataStores ''dsr'' (dsr_record 0 50) =
     \<lparr>valid = False, errors = [''Growth rate cannot exceed 50%'']\<rparr> \<and>
   validateData setupDataStores ''dsr'' (dsr_record 100 160) =
     \<lparr>valid = False, errors = [''Growth rate cannot exceed 50%'']\<rparr>"
  by code_simp

section \<open>The memory tier: eviction\<close>

lemma digit_val_digit_char: "d < 10 \<Longrightarrow> digit_val (digit_char d) = Some d"
proof -
  assume "d < 10"
  then have "d \<in> {0, 1, 2, 3, 4, 5, 6, 7, 8, 9}" by auto
  then show ?thesis
    by (auto simp: digit_val_def digit_char_def is_digit_def less_eq_char_def)
qed

lemma digits_in_snoc:
  "digits_in b (cs @ [c]) acc =
     (case digits_in b cs acc of
        None \<Rightarrow> None
      | Some a \<Rightarrow>
          (case digit_val c of
             None \<Rightarrow> None
           | Some d \<Rightarrow> if d < b then Some (b * a + d) else None))"
  by (induction cs arbitrary: acc) (auto split: option.splits)

text \<open>Reading the decimal digits of a number gives the number back, so printing is
  injective and the keys of the test are distinct.\<close>

lemma digits_in_show_nat: "digits_in 10 (show_nat n) 0 = Some n"
proof (induction n rule: show_nat.induct)
  case (1 n)
  show ?case
  proof (cases "n < 10")
    case True
    then show ?thesis
      by (subst show_nat.simps) (simp add: digit_val_digit_char)
  next
    case False
    with 1 have "digits_in 10 (show_nat (n div 10)) 0 = Some (n div 10)" by simp
    with False show ?thesis
      by (subst show_nat.simps) (simp add: digits_in_snoc digit_val_digit_char)
  qed
qed

lemma inj_show_nat: "inj show_nat"
  by (rule inj_on_inverseI [where g = "\<lambda>s. the (digits_in 10 s 0)"])
     (simp add: digits_in_show_nat)

lemma inj_test_key: "inj test_key"
  using inj_show_nat by (auto simp: inj_def test_key_def)

text \<open>No entry is older than the clock reading: the scan keeps \<open>oldestKey\<close>, and
  the eviction removes nothing.\<close>

lemma oldest_scan_same_instant:
  "\<forall>ke \<in> set xs. t \<le> lastAccess (snd ke) \<Longrightarrow> oldest_scan xs k t = k"
  by (induction xs arbitrary: k) auto

lemma evictMemoryCache_same_instant:
  "\<forall>ke \<in> set (memoryCache s). now \<le> lastAccess (snd ke) \<Longrightarrow> evictMemoryCache now s = s"
  by (simp add: evictMemoryCache_def oldest_scan_same_instant)

lemma update_fresh: "k \<notin> fst ` set xs \<Longrightarrow> AList.update k v xs = xs @ [(k, v)]"
  by (induction xs) auto

lemma fill_memory_keeps_all:
  "map fst (memoryCache (fill_memory now n)) = map test_key [0..<n] \<and>
   (\<forall>ke \<in> set (memoryCache (fill_memory now n)). lastAccess (snd ke) = now)"
proof (induction n)
  case 0
  show ?case by (simp add: fill_memory_def new_cache_def)
next
  case (Suc n)
  let ?s = "fill_memory now n"
  have step: "fill_memory now (Suc n) = cache_set now (test_key n) (test_value n) memory_options ?s"
    by (simp add: fill_memory_def)
  have fresh: "test_key n \<notin> fst ` set (memoryCache ?s)"
  proof -
    have "fst ` set (memoryCache ?s) = set (map fst (memoryCache ?s))" by simp
    also have "\<dots> = test_key ` {0..<n}" using Suc by simp
    finally show ?thesis using inj_test_key by (auto dest!: injD)
  qed
  have same: "\<forall>ke \<in> set (memoryCache ?s). now \<le> lastAccess (snd ke)"
    using Suc by simp
  have "memoryCache (fill_memory now (Suc n)) =
          memoryCache ?s @
            [(test_key n,
              \<lparr>value_e = serialize (test_value n), timestamp = now,
               ttl = getDefaultTTL Memory, priority = ''normal'', accessCount = 0,
               lastAccess = now\<rparr>)]"
    unfolding step
    by (simp add: cache_set_def memory_options_def setMemoryCache_def Let_def
          evictMemoryCache_same_instant [OF same] update_fresh [OF fresh])
  with Suc show ?case by simp
qed

text \<open>
  Claim C3. The memory tier should never hold more than its capacity of 100 entries,
  the least recently accessed entry being evicted before an insertion at capacity. In
  the code, 150 insertions of distinct keys within one millisecond leave 150 entries
  and no key is missing: the eviction looks for an entry accessed strictly before the
  clock reading, finds none and removes nothing.
\<close>

theorem C3_same_instant_overflow:
  "map fst (memoryCache (fill_memory now 150)) = map test_key [0..<150] \<and>
   length (memoryCache (fill_memory now 150)) = 150 \<and>
   config_maxSize Memory = 100"
proof -
  have keys: "map fst (memoryCache (fill_memory now 150)) = map test_key [0..<150]"
    by (simp only: fill_memory_keeps_all)
  have "length (map fst (memoryCache (fill_memory now 150))) = 150"
    by (simp only: keys) simp
  then have size: "length (memoryCache (fill_memory now 150)) = 150"
    by simp
  have "config_maxSize Memory = 100"
    by (simp add: config_maxSize_def cacheConfig_def)
  with keys size show ?thesis by blast
qed

section \<open>Record operations\<close>

lemma truthy_Some: "truthy x \<Longrightarrow> x = Some (the x)"
  by (cases x) simp_all

lemma addData_failure_unchanged:
  "fst (addData now gen storeName rec w) = Inl e \<Longrightarrow> snd (addData now gen storeName rec w) = w"
  by (auto simp: addData_def Let_def split: option.splits if_splits)

lemma updateData_failure_unchanged:
  "fst (updateData now storeName i updates w) = Inl e \<Longrightarrow>
   snd (updateData now storeName i updates w) = w"
  by (auto simp: updateData_def Let_def split: option.splits if_splits)

lemma addData_existing_id:
  assumes st: "map_of (dataStores w) storeName = Some st"
      and id: "truthy (map_of rec ''id'')"
      and dup: "find (has_id (map_of rec ''id'')) (data st) \<noteq> None"
  shows "\<exists>err. fst (addData now gen storeName rec w) = Inl err"
proof -
  let ?enriched = "AList.update ''updatedAt'' (JDate now)
                    (AList.update ''createdAt'' (JDate now)
                      (AList.update ''id'' (the (map_of rec ''id'')) rec))"
  have "map_of ?enriched ''id'' = map_of rec ''id''"
    using truthy_Some [OF id] by (simp add: update_conv')
  with st id dup show ?thesis
    by (simp add: addData_def Let_def)
qed

lemma updateData_missing_id:
  assumes "map_of (dataStores w) storeName = Some st"
      and "find_index (has_id i) (data st) = None"
  shows "fst (updateData now storeName i updates w) = Inl (RecordNotFound i)"
  using assms by (simp add: updateData_def)

text \<open>
  Claim C5. When \<open>addData\<close> or \<open>updateData\<close> fails, the page is what it was before
  the call: the records of every store and the cache, so the entry of the store in
  it, are unchanged. An \<open>addData\<close> with an identifier that a record of the store
  already has fails, and so does an \<open>updateData\<close> of an identifier that no record
  has.
\<close>

theorem C5_failed_add_update_unchanged:
  "(fst (addData now gen storeName rec w) = Inl e \<longrightarrow>
      snd (addData now gen storeName rec w) = w) \<and>
   (fst (updateData now storeName i updates w) = Inl e \<longrightarrow>
      snd (updateData now storeName i updates w) = w) \<and>
   (map_of (dataStores w) storeName = Some st \<and> truthy (map_of rec ''id'') \<and>
      find (has_id (map_of rec ''id'')) (data st) \<noteq> None \<longrightarrow>
      (\<exists>err. fst (addData now gen storeName rec w) = Inl err)) \<and>
   (map_of (dataStores w) storeName = Some st \<and> find_index (has_id i) (data st) = None \<longrightarrow>
      fst (updateData now storeName i updates w) = Inl (RecordNotFound i))"
proof (intro conjI impI)
  assume "fst (addData now gen storeName rec w) = Inl e"
  then show "snd (addData now gen storeName rec w) = w"
    by (rule addData_failure_unchanged)
next
  assume "fst (updateData now storeName i updates w) = Inl e"
  then show "snd (updateData now storeName i updates w) = w"
    by (rule updateData_failure_unchanged)
next
  assume "map_of (dataStores w) storeName = Some st \<and> truthy (map_of rec ''id'') \<and>
          find (has_id (map_of rec ''id'')) (data st) \<noteq> None"
  then show "\<exists>err. fst (addData now gen storeName rec w) = Inl err"
    by (auto intro: addData_existing_id)
next
  assume "map_of (dataStores w) storeName = Some st \<and> find_index (has_id i) (data st) = None"
  then show "fst (updateData now storeName i updates w) = Inl (RecordNotFound i)"
    by (auto intro: updateData_missing_id)
qed

lemma add_duplicate_page_one:
  "fst (addData 3000 ''g3'' ''sales'' (sale_record ''s1'' ''Gamma'') page_one) =
     Inl (DuplicateId (Some (JStr ''s1'')))"
  by code_simp

lemma add_nameless_page_one:
  "fst (addData 3000 ''g3'' ''sales'' nameless_record page_one) =
     Inl (ValidationFailed [''name is required''])"
  by code_simp

lemma update_excess_page_one:
  "fst (updateData 3000 ''sales'' (Some (JStr ''s1'')) [(''mtdActual'', JNum 500)] page_one) =
     Inl (ValidationFailed [''MTD actual cannot exceed monthly target''])"
  by code_simp

lemma update_missing_page_one:
  "fst (updateData 3000 ''sales'' (Some (JStr ''s9'')) [(''name'', JStr ''Gamma'')] page_one) =
     Inl (RecordNotFound (Some (JStr ''s9'')))"
  by code_simp

theorem C5_failed_add_update_unchanged_witness:
  "addData 3000 ''g3'' ''sales'' (sale_record ''s1'' ''Gamma'') page_one =
     (Inl (DuplicateId (Some (JStr ''s1''))), page_one) \<and>
   addData 3000 ''g3'' ''sales'' nameless_record page_one =
     (Inl (ValidationFailed [''name is required'']), page_one) \<and>
   updateData 3000 ''sales'' (Some (JStr ''s1'')) [(''mtdActual'', JNum 500)] page_one =
     (Inl (ValidationFailed [''MTD actual cannot exceed monthly target'']), page_one) \<and>
   updateData 3000 ''sales'' (Some (JStr ''s9'')) [(''name'', JStr ''Gamma'')] page_one =
     (Inl (RecordNotFound (Some (JStr ''s9''))), page_one)"
proof -
  have a: "snd (addData 3000 ''g3'' ''sales'' (sale_record ''s1'' ''Gamma'') page_one) = page_one"
    using C5_failed_add_update_unchanged
            [where now = 3000 and gen = "''g3''" and storeName = "''sales''"
               and rec = "sale_record ''s1'' ''Gamma''" and w = page_one]
          add_duplicate_page_one
    by blast
  have b: "snd (addData 3000 ''g3'' ''sales'' nameless_record page_one) = page_one"
    using C5_failed_add_update_unchanged
            [where now = 3000 and gen = "''g3''" and storeName = "''sales''"
               and rec = nameless_record and w = page_one]
          add_nameless_page_one
    by blast
  have c: "snd (updateData 3000 ''sales'' (Some (JStr ''s1'')) [(''mtdActual'', JNum 500)] page_one) =
           page_one"
    using C5_failed_add_update_unchanged
            [where now = 3000 and storeName = "''sales''" and i = "Some (JStr ''s1'')"
               and updates = "[(''mtdActual'', JNum 500)]" and w = page_one]
          update_excess_page_one
    by blast
  have d: "snd (updateData 3000 ''sales'' (Some (JStr ''s9'')) [(''name'', JStr ''Gamma'')] page_one) =
           page_one"
    using C5_failed_add_update_unchanged
            [where now = 3000 and storeName = "''sales''" and i = "Some (JStr ''s9'')"
               and updates = "[(''name'', JStr ''Gamma'')]" and w = page_one]
          update_missing_page_one
    by blast
  show ?thesis
    using a b c d add_duplicate_page_one add_nameless_page_one update_excess_page_one
      update_missing_page_one
    by (simp add: prod_eq_iff)
qed

section \<open>Queries\<close>

lemma sales_page_two:
  "map_of (dataStores page_two) ''sales'' =
     Some (sales_store\<lparr>data := [stamped 1000 (sale_record ''s1'' ''Alpha''),
                                 stamped 2000 (sale_record ''s2'' ''Beta'')]\<rparr>)"
  by code_simp

text \<open>
  Claim C9. A query whose \<open>limit\<close> is 0 or absent and whose \<open>offset\<close> is 0 or
  absent skips the pagination: it returns the whole filtered and sorted list, not an
  empty one.
\<close>

theorem C9_zero_limit_skips_pagination:
  assumes "map_of (dataStores w) storeName = Some st"
      and "\<not> nonzero (limit options)" and "\<not> nonzero (offset options)"
  shows "queryData storeName options w =
           Inr (let filtered = (case filter_o options of
                                  None \<Rightarrow> data st
                                | Some p \<Rightarrow> filter p (data st))
                in case sort_o options of
                     None \<Rightarrow> filtered
                   | Some keys \<Rightarrow> sort_by (compare_by keys) filtered)"
  using assms by (simp add: queryData_def paginate_def Let_def)

theorem C9_zero_limit_skips_pagination_witness:
  "queryData ''sales'' (no_options\<lparr>limit := Some 0\<rparr>) page_two =
     Inr [stamped 1000 (sale_record ''s1'' ''Alpha''), stamped 2000 (sale_record ''s2'' ''Beta'')] \<and>
   queryData ''sales'' (no_options\<lparr>offset := Some 0\<rparr>) page_two =
     Inr [stamped 1000 (sale_record ''s1'' ''Alpha''), stamped 2000 (sale_record ''s2'' ''Beta'')]"
  using C9_zero_limit_skips_pagination [OF sales_page_two, of "no_options\<lparr>limit := Some 0\<rparr>"]
        C9_zero_limit_skips_pagination [OF sales_page_two, of "no_options\<lparr>offset := Some 0\<rparr>"]
  by (simp add: no_options_def nonzero_def)

section \<open>Unknown stores\<close>

text \<open>
  Claim C10. For a store name that is not registered, \<open>validateData\<close> returns the
  invalid result with the single error \<open>Store not found\<close>, while \<open>addData\<close>,
  \<open>updateData\<close>, \<open>deleteData\<close> and \<open>queryData\<close> each throw the error that the
  store is not found (and leave the page as it is).
\<close>

theorem C10_unknown_store:
  assumes "map_of (dataStores w) storeName = None"
  shows "validateData (dataStores w) storeName rec =
           \<lparr>valid = False, errors = [''Store not found'']\<rparr> \<and>
         addData now gen storeName rec w = (Inl (StoreNotFound storeName), w) \<and>
         updateData now storeName i updates w = (Inl (StoreNotFound storeName), w) \<and>
         deleteData now storeName i w = (Inl (StoreNotFound storeName), w) \<and>
         queryData storeName options w = Inl (StoreNotFound storeName)"
  using assms
  by (simp add: validateData_def addData_def updateData_def deleteData_def queryData_def)

theorem C10_unknown_store_witness:
  "validateData (dataStores new_page) ''targets'' (sale_record ''s1'' ''Alpha'') =
     \<lparr>valid = False, errors = [''Store not found'']\<rparr> \<and>
   addData 0 ''g1'' ''targets'' (sale_record ''s1'' ''Alpha'') new_page =
     (Inl (StoreNotFound ''targets''), new_page) \<and>
   updateData 0 ''targets'' (Some (JStr ''s1'')) [] new_page =
     (Inl (StoreNotFound ''targets''), new_page) \<and>
   deleteData 0 ''targets'' (Some (JStr ''s1'')) new_page =
     (Inl (StoreNotFound ''targets''), new_page) \<and>
   queryData ''targets'' no_options new_page = Inl (StoreNotFound ''targets'')"
proof -
  have h: "map_of (dataStores new_page) ''targets'' = None"
    by (simp add: new_page_def setupDataStores_def)
  show ?thesis using C10_unknown_store [OF h] by simp
qed

section \<open>Validation: the order of the checks\<close>

text \<open>Each check appends to the error list it is given.\<close>

lemma check_type_append: "check_type f r v errs = errs @ check_type f r v []"
  by (simp add: check_type_def push_def)
lemma check_minLength_append: "check_minLength f r v errs = errs @ check_minLength f r v []"
  by (simp add: check_minLength_def push_def split: option.splits)
lemma check_maxLength_append: "check_maxLength f r v errs = errs @ check_maxLength f r v []"
  by (simp add: check_maxLength_def push_def split: option.splits)
lemma check_min_append: "check_min f r v errs = errs @ check_min f r v []"
  by (simp add: check_min_def push_def split: option.splits)
lemma check_max_append: "check_max f r v errs = errs @ check_max f r v []"
  by (simp add: check_max_def push_def split: option.splits)
lemma check_pattern_append: "check_pattern f r v errs = errs @ check_pattern f r v []"
  by (simp add: check_pattern_def push_def split: option.splits)
lemma check_enum_append: "check_enum f r v errs = errs @ check_enum f r v []"
  by (simp add: check_enum_def push_def split: option.splits)

lemma checks_append:
  "check_enum f r v (check_pattern f r v (check_max f r v (check_min f r v
     (check_maxLength f r v (check_minLength f r v (check_type f r v errs)))))) =
   errs @ stage_errors f r v"
  unfolding stage_errors_def
  apply (subst check_enum_append)
  apply (subst check_pattern_append)
  apply (subst check_max_append)
  apply (subst check_min_append)
  apply (subst check_maxLength_append)
  apply (subst check_minLength_append)
  apply (subst check_type_append)
  apply simp
  done

lemma check_field_append: "check_field rec fr errs = errs @ field_errors rec fr"
  by (simp add: check_field_def field_errors_def Let_def push_def checks_append
           split: option.splits)

lemma check_fields_append:
  "check_fields rec sch errs = errs @ concat (map (field_errors rec) sch)"
proof (induction sch arbitrary: errs)
  case Nil
  show ?case by simp
next
  case (Cons fr sch)
  show ?case by (simp add: Cons.IH check_field_append)
qed

lemma check_rule_append: "check_rule rec fr errs = errs @ check_rule rec fr []"
  by (simp add: check_rule_def push_def split: option.splits rule_result.splits)

lemma check_rules_append:
  "check_rules rec rs errs = errs @ concat (map (\<lambda>fr. check_rule rec fr []) rs)"
proof (induction rs arbitrary: errs)
  case Nil
  show ?case by simp
next
  case (Cons fr rs)
  show ?case by (simp add: Cons.IH) (subst check_rule_append, simp)
qed

text \<open>
  Claim C4, as the code has it. The fields are checked in schema order. A required
  field that is missing records the one error of the presence test and the loop goes to
  the next field. A present value goes through the type check, the length checks, the
  range checks, the pattern check and the membership check in this order, and every
  check that fails records its error, whether or not an earlier check of the same
  field failed. The errors of the business rules, which read the whole record, come
  after the errors of all the fields.
\<close>

theorem C4_validation_order:
  assumes "map_of stores storeName = Some st"
  shows "errors (validateData stores storeName rec) =
           concat (map (field_errors rec) (schema st)) @ rule_errors storeName rec \<and>
         valid (validateData stores storeName rec) =
           (errors (validateData stores storeName rec) = [])"
  using assms
  by (simp add: validateData_def Let_def check_fields_append check_rules_append rule_errors_def
           split: option.splits)

text \<open>The claim as stated fails: a \<open>cluster\<close> that is a number is reported by the
  type check and again by the membership check.\<close>

theorem C4_validation_order_counterexample:
  "errors (validateData setupDataStores ''dsr'' odd_cluster_record) =
     [''cluster must be a string'', ''cluster must be one of: North, South, East, West'']"
  by code_simp

lemma sales_registered: "map_of setupDataStores ''sales'' = Some sales_store"
  by (simp add: setupDataStores_def)

theorem C4_validation_order_witness:
  "errors (validateData setupDataStores ''sales'' short_name_record) =
     [''name must be at least 2 characters'', ''monthlyTarget must be at least 0'',
      ''Monthly target must be greater than or equal to MTD target'',
      ''MTD actual cannot exceed monthly target''] \<and>
   concat (map (field_errors short_name_record) (schema sales_store)) =
     [''name must be at least 2 characters'', ''monthlyTarget must be at least 0''] \<and>
   rule_errors ''sales'' short_name_record =
     [''Monthly target must be greater than or equal to MTD target'',
      ''MTD actual cannot exceed monthly target'']"
proof -
  have f: "concat (map (field_errors short_name_record) (schema sales_store)) =
     [''name must be at least 2 characters'', ''monthlyTarget must be at least 0'']"
    by code_simp
  have r: "rule_errors ''sales'' short_name_record =
     [''Monthly target must be greater than or equal to MTD target'',
      ''MTD actual cannot exceed monthly target'']"
    by code_simp
  show ?thesis
    using C4_validation_order [OF sales_registered, of short_name_record] f r by simp
qed

section \<open>Saving and loading\<close>

text \<open>
  Claim C6. Saving, emptying the stores and loading should restore the record lists
  as they were, the two dates included. In the code the record that \<open>addData\<close>
  stored at time 1000 holds \<open>Date\<close> objects; the saved text holds their ISO
  strings, and the load puts these strings into the record. The loaded record differs
  from the saved one, it fails the validation of its own store, and an update of it is
  rejected.
\<close>

theorem C6_dates_not_restored:
  "map_option data (map_of (dataStores page_one) ''sales'') = Some [stamped 1000 (sale_record ''s1'' ''Alpha'')] \<and>
   map_option data (map_of (dataStores reloaded_page) ''sales'') = Some [reloaded_sale] \<and>
   reloaded_sale \<noteq> stamped 1000 (sale_record ''s1'' ''Alpha'') \<and>
   validateData (dataStores reloaded_page) ''sales'' reloaded_sale =
     \<lparr>valid = False, errors = [''createdAt must be a date'', ''updatedAt must be a date'']\<rparr> \<and>
   fst (updateData 2000 ''sales'' (Some (JStr ''s1'')) [(''mtdActual'', JNum 45)] reloaded_page) =
     Inl (ValidationFailed [''createdAt must be a date''])"
  by code_simp

section \<open>The cache: reading\<close>

text \<open>
  What an automatic read does: it takes the entry of the first tier, in the order
  memory, session storage, local storage, that holds any entry for the key, and only
  then tests whether that entry is valid.
\<close>

lemma auto_get_first_present:
  "(getMemoryCache s key = Some e \<longrightarrow> fst (cache_get now key Auto s) = read_entry now e) \<and>
   (getMemoryCache s key = None \<and> getSessionStorageCache s key = Some e \<longrightarrow>
      fst (cache_get now key Auto s) = read_entry now e) \<and>
   (getMemoryCache s key = None \<and> getSessionStorageCache s key = None \<and>
    getLocalStorageCache s key = Some e \<longrightarrow>
      fst (cache_get now key Auto s) = read_entry now e) \<and>
   (getMemoryCache s key = None \<and> getSessionStorageCache s key = None \<and>
    getLocalStorageCache s key = None \<longrightarrow>
      fst (cache_get now key Auto s) = None)"
  by (simp add: cache_get_def find_entry_def read_entry_def)

lemma memory_only_entries:
  "getMemoryCache memory_only_cache ''k'' =
     Some \<lparr>value_e = serialize small_value, timestamp = 0, ttl = 300000,
           priority = ''normal'', accessCount = 0, lastAccess = 0\<rparr>"
  by code_simp

lemma session_only_entries:
  "getMemoryCache session_only_cache ''k'' = None \<and>
   getSessionStorageCache session_only_cache ''k'' =
     Some \<lparr>value_e = serialize small_value, timestamp = 0, ttl = 1800000,
           priority = ''normal'', accessCount = 0, lastAccess = 0\<rparr>"
  by code_simp

lemma durable_only_entries:
  "getMemoryCache durable_only_cache ''k'' = None \<and>
   getSessionStorageCache durable_only_cache ''k'' = None \<and>
   getLocalStorageCache durable_only_cache ''k'' =
     Some \<lparr>value_e = serialize small_value, timestamp = 0, ttl = 3600000,
           priority = ''normal'', accessCount = 0, lastAccess = 0\<rparr>"
  by code_simp

lemma new_cache_entries:
  "getMemoryCache new_cache ''k'' = None \<and> getSessionStorageCache new_cache ''k'' = None \<and>
   getLocalStorageCache new_cache ''k'' = None"
  by (simp add: getMemoryCache_def getSessionStorageCache_def getLocalStorageCache_def
        new_cache_def)

lemma auto_get_examples:
  "fst (cache_get 10 ''k'' Auto memory_only_cache) = Some (serialize small_value) \<and>
   fst (cache_get 300000 ''k'' Auto memory_only_cache) = None \<and>
   fst (cache_get 10 ''k'' Auto session_only_cache) = Some (serialize small_value) \<and>
   fst (cache_get 10 ''k'' Auto durable_only_cache) = Some (serialize small_value) \<and>
   fst (cache_get 10 ''k'' Auto new_cache) = None"
  using auto_get_first_present [of memory_only_cache "''k''" _ 10] memory_only_entries
        auto_get_first_present [of memory_only_cache "''k''" _ 300000]
        auto_get_first_present [of session_only_cache "''k''" _ 10] session_only_entries
        auto_get_first_present [of durable_only_cache "''k''" _ 10] durable_only_entries
        auto_get_first_present [of new_cache "''k''" _ 10] new_cache_entries
  by (simp add: read_entry_def isValid_def)

text \<open>
  Claim C2. An automatic read should probe the tiers in the order memory, session
  storage, local storage and return the first valid hit, so that a value written to
  the local storage is found also when an earlier tier holds an expired entry for the
  key. In the code the expired entry of the memory tier is taken and found invalid,
  and the read returns nothing, although a read of the local storage alone returns
  the value; once the sweep has removed the expired entry, the same automatic read
  returns the value.
\<close>

theorem C2_expired_memory_hides_durable:
  "fst (cache_get 10 ''k'' LocalStorage stale_memory_cache) = Some (serialize small_value) \<and>
   fst (cache_get 10 ''k'' Auto stale_memory_cache) = None \<and>
   fst (cache_get 10 ''k'' Auto (cleanup 10 stale_memory_cache)) = Some (serialize small_value)"
  by code_simp

text \<open>
  Claim C8. A read that hits should increment \<open>accessCount\<close> and set
  \<open>lastAccess\<close> in the backing store of the tier. In the code a hit in the session
  storage or in the local storage changes the parsed copy only: the stored entry keeps
  \<open>accessCount = 0\<close> and the \<open>lastAccess\<close> of its write, and the cache is the
  same after the read. A hit in the memory tier does update the stored entry.
\<close>

theorem C8_storage_hit_not_written_back:
  "fst (cache_get 5 ''k'' SessionStorage session_only_cache) = Some (serialize small_value) \<and>
   snd (cache_get 5 ''k'' SessionStorage session_only_cache) = session_only_cache \<and>
   map_option accessCount (getSessionStorageCache (snd (cache_get 5 ''k'' SessionStorage session_only_cache)) ''k'') = Some 0 \<and>
   map_option lastAccess (getSessionStorageCache (snd (cache_get 5 ''k'' SessionStorage session_only_cache)) ''k'') = Some 0 \<and>
   fst (cache_get 5 ''k'' LocalStorage durable_only_cache) = Some (serialize small_value) \<and>
   snd (cache_get 5 ''k'' LocalStorage durable_only_cache) = durable_only_cache \<and>
   fst (cache_get 5 ''k'' Memory memory_only_cache) = Some (serialize small_value) \<and>
   map_option accessCount (getMemoryCache (snd (cache_get 5 ''k'' Memory memory_only_cache)) ''k'') = Some 1 \<and>
   map_option lastAccess (getMemoryCache (snd (cache_get 5 ''k'' Memory memory_only_cache)) ''k'') = Some 5"
  by code_simp

section \<open>The cache: automatic choice of the tier\<close>















end
